theory Spec2Isabelle
  imports Main "HOL-Library.Finite_Map"
begin

section \<open>The pod node environment admission plugin\<close>

text \<open>
  A shallow embedding of \<^verbatim>\<open>pkg/project/apiserver/admission/nodeenv/admission.go\<close>:
  the function \<^verbatim>\<open>admit\<close> and its two entry points \<^verbatim>\<open>Admit\<close> and \<^verbatim>\<open>Validate\<close>.
\<close>

subsection \<open>Data\<close>

text \<open>
  A Go \<^verbatim>\<open>map[string]string\<close> is a finite map from strings to strings. A nil map and an
  empty map are the same value here: the code reads its maps only through \<^verbatim>\<open>len\<close>, lookup
  and iteration, which do not tell them apart.
\<close>

type_synonym labels = "(string, string) fmap"

definition len :: "('k, 'v) fmap \<Rightarrow> nat" where
  "len m = fcard (fmdom m)"

text \<open>\<^verbatim>\<open>schema.GroupVersionResource\<close>, \<^verbatim>\<open>schema.GroupResource\<close> and the method between them.\<close>

record group_resource =
  Group :: string
  Resource :: string

record group_version_resource =
  gvr_Group :: string
  gvr_Version :: string
  gvr_Resource :: string

definition GroupResource :: "group_version_resource \<Rightarrow> group_resource" where
  "GroupResource gvr = \<lparr>Group = gvr_Group gvr, Resource = gvr_Resource gvr\<rparr>"

text \<open>
  \<^verbatim>\<open>kapi.Resource\<close> qualifies a resource name with the group of the core API. The group's
  name is declared outside the plugin's file; it is the empty string, and no theorem below
  depends on its value.
\<close>

definition kapi_GroupName :: string where
  "kapi_GroupName = ''''"

definition kapi_Resource :: "string \<Rightarrow> group_resource" where
  "kapi_Resource resource = \<lparr>Group = kapi_GroupName, Resource = resource\<rparr>"

text \<open>
  Errors are values. \<^verbatim>\<open>fmt.Errorf\<close> with a constant format is its message;
  \<^verbatim>\<open>apierrors.NewForbidden\<close> keeps the resource, the name and the cause it is built from.
  The errors the project cache returns are values of the same type.
\<close>

datatype error =
    Errorf string
  | NewForbidden group_resource string error

text \<open>
  \<^verbatim>\<open>metav1.ObjectMeta\<close> is embedded in both \<^verbatim>\<open>kapi.Pod\<close> and \<^verbatim>\<open>kapi.Namespace\<close>, so
  \<^verbatim>\<open>pod.Name\<close> is \<open>Name (ObjectMeta pod)\<close>. Only some of the fields of the Kubernetes types
  are listed; the ones beside \<open>NodeSelector\<close> stand for everything \<^verbatim>\<open>admit\<close> must leave alone.
\<close>

record object_meta =
  Name :: string
  Namespace :: string
  Labels :: labels
  Annotations :: labels

record meta_object =
  ObjectMeta :: object_meta

record pod_spec =
  NodeSelector :: labels
  NodeName :: string
  ServiceAccountName :: string

record pod = meta_object +
  Spec :: pod_spec

record namespace = meta_object +
  Finalizers :: "string list"

text \<open>
  The payload of a request is a \<^verbatim>\<open>runtime.Object\<close>: a pod, or a value of another kind (named
  by a string), on which the type assertion \<^verbatim>\<open>obj.(*kapi.Pod)\<close> fails. Pointers handed to
  \<^verbatim>\<open>admit\<close> are taken to be non-nil.
\<close>

datatype object =
    PodObject pod
  | OtherObject string

text \<open>The part of \<^verbatim>\<open>admission.Attributes\<close> that \<^verbatim>\<open>admit\<close> reads.\<close>

record attributes =
  GetResource :: group_version_resource
  GetSubresource :: string
  GetNamespace :: string
  GetObject :: object

text \<open>
  The project cache is a collaborator whose code is outside the plugin's file. It is a
  parameter of the model: a readiness flag and the two lookups, each of which may fail.
  The plugin's field \<^verbatim>\<open>cache\<close> is taken to be set, which \<^verbatim>\<open>ValidateInitialization\<close> checks
  before the plugin is used.
\<close>

record project_cache =
  Running :: bool
  cache_GetNamespace :: "string \<Rightarrow> error + namespace"
  GetNodeSelectorMap :: "namespace \<Rightarrow> error + labels"

text \<open>
  The calls that \<^verbatim>\<open>admit\<close> makes to the cache are recorded in order, so that "the cache is
  not consulted" is a statement about the result.
\<close>

datatype cache_call =
    CallRunning
  | CallGetNamespace string
  | CallGetNodeSelectorMap namespace

text \<open>
  What a call of \<^verbatim>\<open>admit\<close> leaves behind: the returned error (\<open>None\<close> is Go's nil, the
  request is allowed), the request's object as it is after the call (the pod is mutated
  through its pointer), and the calls made to the cache.
\<close>

record admit_result =
  err :: "error option"
  obj :: object
  calls :: "cache_call list"

subsection \<open>Selector algebra\<close>

text \<open>
  Modelled from the spec: the package \<^verbatim>\<open>pkg/util/labelselector\<close> with \<^verbatim>\<open>Conflicts\<close> and
  \<^verbatim>\<open>Merge\<close> is not among the sources. Section 4.1: \<^verbatim>\<open>Conflicts(P, R)\<close> is "true iff there
  exists a key present in both P and R with differing values".
\<close>

definition Conflicts :: "labels \<Rightarrow> labels \<Rightarrow> bool" where
  "Conflicts labels1 labels2 =
     (\<exists>k |\<in>| fmdom labels1. k |\<in>| fmdom labels2 \<and> fmlookup labels1 k \<noteq> fmlookup labels2 k)"

text \<open>
  Modelled from the spec: \<^verbatim>\<open>labelselector.Merge\<close> is not among the sources. Section 4.1:
  \<^verbatim>\<open>Merge(P, R)\<close> "returns a map containing every key from P and every key from R; where a
  key exists in both (values must be equal, per the no-conflict precondition), the value is
  taken once". The spec leaves open which value a conflicting key gets; here it is the one
  of the second map.
\<close>

definition Merge :: "labels \<Rightarrow> labels \<Rightarrow> labels" where
  "Merge labels1 labels2 = labels1 ++\<^sub>f labels2"

subsection \<open>The admission decision\<close>

definition KubeProjectNodeSelector :: string where
  "KubeProjectNodeSelector = ''scheduler.alpha.kubernetes.io/node-selector''"

definition admit :: "project_cache \<Rightarrow> attributes \<Rightarrow> bool \<Rightarrow> admit_result" where
  "admit cache a mutationAllowed =
     (let resource = GroupResource (GetResource a) in
      if resource \<noteq> kapi_Resource ''pods'' then
        \<lparr>err = None, obj = GetObject a, calls = []\<rparr>
      else if GetSubresource a \<noteq> '''' then
        \<lparr>err = None, obj = GetObject a, calls = []\<rparr>
      else
        (case GetObject a of
           OtherObject kind \<Rightarrow> \<lparr>err = None, obj = GetObject a, calls = []\<rparr>
         | PodObject pod \<Rightarrow>
             (let name = Name (ObjectMeta pod) in
              if \<not> Running cache then
                \<lparr>err = None, obj = PodObject pod, calls = [CallRunning]\<rparr>
              else
                (case cache_GetNamespace cache (GetNamespace a) of
                   Inl e \<Rightarrow>
                     \<lparr>err = Some (NewForbidden resource name e), obj = PodObject pod,
                      calls = [CallRunning, CallGetNamespace (GetNamespace a)]\<rparr>
                 | Inr namespace \<Rightarrow>
                     if len (Annotations (ObjectMeta namespace)) > 0 \<and>
                        KubeProjectNodeSelector |\<in>| fmdom (Annotations (ObjectMeta namespace))
                     then
                       \<lparr>err = None, obj = PodObject pod,
                        calls = [CallRunning, CallGetNamespace (GetNamespace a)]\<rparr>
                     else
                       (case GetNodeSelectorMap cache namespace of
                          Inl e \<Rightarrow>
                            \<lparr>err = Some e, obj = PodObject pod,
                             calls = [CallRunning, CallGetNamespace (GetNamespace a),
                                      CallGetNodeSelectorMap namespace]\<rparr>
                        | Inr projectNodeSelector \<Rightarrow>
                            if Conflicts projectNodeSelector (NodeSelector (Spec pod)) then
                              \<lparr>err = Some (NewForbidden resource name (Errorf
                                 ''pod node label selector conflicts with its project node label selector'')),
                               obj = PodObject pod,
                               calls = [CallRunning, CallGetNamespace (GetNamespace a),
                                        CallGetNodeSelectorMap namespace]\<rparr>
                            else if \<not> mutationAllowed \<and>
                                    len (Merge projectNodeSelector (NodeSelector (Spec pod)))
                                      \<noteq> len (NodeSelector (Spec pod)) then
                              \<lparr>err = Some (NewForbidden resource name (Errorf
                                 ''pod node label selector does not extend project node label selector'')),
                               obj = PodObject pod,
                               calls = [CallRunning, CallGetNamespace (GetNamespace a),
                                        CallGetNodeSelectorMap namespace]\<rparr>
                            else
                              \<lparr>err = None,
                               obj = PodObject (pod\<lparr>Spec := (Spec pod)\<lparr>NodeSelector :=
                                 Merge projectNodeSelector (NodeSelector (Spec pod))\<rparr>\<rparr>),
                               calls = [CallRunning, CallGetNamespace (GetNamespace a),
                                        CallGetNodeSelectorMap namespace]\<rparr>)))))"

definition Admit :: "project_cache \<Rightarrow> attributes \<Rightarrow> admit_result" where
  "Admit cache a = admit cache a True"

definition Validate :: "project_cache \<Rightarrow> attributes \<Rightarrow> admit_result" where
  "Validate cache a = admit cache a False"

subsection \<open>Concrete requests\<close>

text \<open>
  The inputs of the scenarios: a namespace \<^verbatim>\<open>dev\<close> with given annotations, a pod \<^verbatim>\<open>web\<close> with
  a given node selector, a request for a given resource, sub-resource and payload, and a
  cache that knows only the namespace \<^verbatim>\<open>dev\<close> and answers every selector lookup with a
  given result.
\<close>

definition example_namespace :: "labels \<Rightarrow> namespace" where
  "example_namespace annotations =
     \<lparr>ObjectMeta = \<lparr>Name = ''dev'', Namespace = '''', Labels = fmempty,
                    Annotations = annotations\<rparr>,
      Finalizers = []\<rparr>"

definition example_pod :: "labels \<Rightarrow> pod" where
  "example_pod selector =
     \<lparr>ObjectMeta = \<lparr>Name = ''web'', Namespace = ''dev'', Labels = fmempty,
                    Annotations = fmempty\<rparr>,
      Spec = \<lparr>NodeSelector = selector, NodeName = '''', ServiceAccountName = ''default''\<rparr>\<rparr>"

definition example_attributes :: "string \<Rightarrow> string \<Rightarrow> object \<Rightarrow> attributes" where
  "example_attributes resource subresource payload =
     \<lparr>GetResource = \<lparr>gvr_Group = '''', gvr_Version = ''v1'', gvr_Resource = resource\<rparr>,
      GetSubresource = subresource, GetNamespace = ''dev'', GetObject = payload\<rparr>"

definition example_cache :: "bool \<Rightarrow> labels \<Rightarrow> error + labels \<Rightarrow> project_cache" where
  "example_cache running annotations selector =
     \<lparr>Running = running,
      cache_GetNamespace =
        (\<lambda>name. if name = ''dev'' then Inr (example_namespace annotations)
                 else Inl (Errorf ''namespace does not exist'')),
      GetNodeSelectorMap = (\<lambda>namespace. selector)\<rparr>"

definition zone_east :: labels where
  "zone_east = fmupd ''zone'' ''east'' fmempty"

definition zone_west :: labels where
  "zone_west = fmupd ''zone'' ''west'' fmempty"

definition disk_ssd :: labels where
  "disk_ssd = fmupd ''disk'' ''ssd'' fmempty"

lemmas example_defs =
  example_namespace_def example_pod_def example_attributes_def example_cache_def
  zone_east_def zone_west_def disk_ssd_def

lemmas model_defs =
  GroupResource_def kapi_Resource_def kapi_GroupName_def KubeProjectNodeSelector_def
  Conflicts_def Merge_def len_def fcard_finsert_if

section \<open>Properties of the selector algebra\<close>

lemma len_pos_of_member: "k |\<in>| fmdom m \<Longrightarrow> 0 < len m"
  unfolding len_def by (metis fcard_fempty fempty_iff gr0I fcard_0_eq)

lemma Conflicts_iff:
  "Conflicts P R \<longleftrightarrow> (\<exists>k v w. fmlookup P k = Some v \<and> fmlookup R k = Some w \<and> v \<noteq> w)"
  unfolding Conflicts_def
  by (auto simp: fmlookup_dom_iff; blast)

lemma fmdom_Merge: "fmdom (Merge P R) = fmdom P |\<union>| fmdom R"
  by (simp add: Merge_def)

lemma fmlookup_Merge:
  "fmlookup (Merge P R) k = (case fmlookup R k of Some v \<Rightarrow> Some v | None \<Rightarrow> fmlookup P k)"
  by (simp add: Merge_def fmlookup_dom_iff split: option.splits)

text \<open>The merged map is as large as the second map exactly when it adds no key to it.\<close>

lemma len_Merge_eq_iff: "len (Merge P R) = len R \<longleftrightarrow> fmdom P |\<subseteq>| fmdom R"
proof
  assume eq: "len (Merge P R) = len R"
  have sub: "fmdom R |\<subseteq>| fmdom P |\<union>| fmdom R" by auto
  have "fmdom P |\<union>| fmdom R = fmdom R"
  proof (rule ccontr)
    assume "fmdom P |\<union>| fmdom R \<noteq> fmdom R"
    with sub have "fmdom R |\<subset>| fmdom P |\<union>| fmdom R" by auto
    then have "fcard (fmdom R) < fcard (fmdom P |\<union>| fmdom R)" by (rule pfsubset_fcard_mono)
    with eq show False by (simp add: len_def fmdom_Merge)
  qed
  then show "fmdom P |\<subseteq>| fmdom R" by auto
next
  assume "fmdom P |\<subseteq>| fmdom R"
  then have "fmdom P |\<union>| fmdom R = fmdom R" by auto
  then show "len (Merge P R) = len R" by (simp add: len_def fmdom_Merge)
qed

text \<open>Without a conflict, containment of the keys is containment of the pairs.\<close>

lemma contained_iff:
  assumes "\<not> Conflicts P R"
  shows "fmdom P |\<subseteq>| fmdom R \<longleftrightarrow>
         (\<forall>k v. fmlookup P k = Some v \<longrightarrow> fmlookup R k = Some v)"
proof
  assume sub: "fmdom P |\<subseteq>| fmdom R"
  show "\<forall>k v. fmlookup P k = Some v \<longrightarrow> fmlookup R k = Some v"
  proof (intro allI impI)
    fix k v assume pk: "fmlookup P k = Some v"
    then have "k |\<in>| fmdom P" by (rule fmdomI)
    with sub have "k |\<in>| fmdom R" by auto
    then obtain w where rk: "fmlookup R k = Some w" by (auto simp: fmlookup_dom_iff)
    with pk assms have "v = w" unfolding Conflicts_iff by blast
    with rk show "fmlookup R k = Some v" by simp
  qed
next
  assume "\<forall>k v. fmlookup P k = Some v \<longrightarrow> fmlookup R k = Some v"
  then show "fmdom P |\<subseteq>| fmdom R"
    by (meson fmdomE fmdomI fsubsetI)
qed

lemma Merge_contained:
  assumes "\<forall>k v. fmlookup P k = Some v \<longrightarrow> fmlookup R k = Some v"
  shows "Merge P R = R"
proof (rule fmap_ext)
  fix k show "fmlookup (Merge P R) k = fmlookup R k"
    using assms by (cases "fmlookup R k"; cases "fmlookup P k") (auto simp: fmlookup_Merge)
qed

lemma NewForbidden_neq: "NewForbidden resource name e \<noteq> e"
  by (induction e) auto

section \<open>Properties of the admission decision\<close>

text \<open>
  Claim C1. In the mutating phase, for a request for the resource \<^verbatim>\<open>pods\<close> with no
  sub-resource and a pod as payload, a running cache that finds the namespace, no opt-out
  annotation on the namespace, a project node selector \<open>P\<close> and no conflict between \<open>P\<close> and
  the pod's node selector \<open>R\<close>: \<^verbatim>\<open>Admit\<close> returns no error, and the pod it leaves behind is
  the pod of the request with its node selector replaced by \<open>Merge P R\<close>, whose keys are the
  keys of \<open>P\<close> together with the keys of \<open>R\<close>. (The mutating phase has no size check.)
\<close>

theorem Admit_replaces_selector_by_Merge:
  assumes "GroupResource (GetResource a) = kapi_Resource ''pods''"
    and "GetSubresource a = ''''"
    and "GetObject a = PodObject pod"
    and "Running cache"
    and "cache_GetNamespace cache (GetNamespace a) = Inr namespace"
    and "KubeProjectNodeSelector |\<notin>| fmdom (Annotations (ObjectMeta namespace))"
    and "GetNodeSelectorMap cache namespace = Inr P"
    and "\<not> Conflicts P (NodeSelector (Spec pod))"
  shows "err (Admit cache a) = None \<and>
         obj (Admit cache a) =
           PodObject (pod\<lparr>Spec := (Spec pod)\<lparr>NodeSelector :=
             Merge P (NodeSelector (Spec pod))\<rparr>\<rparr>) \<and>
         fmdom (Merge P (NodeSelector (Spec pod))) =
           fmdom P |\<union>| fmdom (NodeSelector (Spec pod))"
  using assms by (simp add: Admit_def admit_def fmdom_Merge)

text \<open>
  Scenario A: project selector \<open>{zone: east}\<close>, pod selector \<open>{}\<close>; the pod leaves \<^verbatim>\<open>Admit\<close>
  with the selector \<open>{zone: east}\<close>.
\<close>

theorem Admit_replaces_selector_by_Merge_witness:
  "err (Admit (example_cache True fmempty (Inr zone_east))
          (example_attributes ''pods'' '''' (PodObject (example_pod fmempty)))) = None \<and>
   obj (Admit (example_cache True fmempty (Inr zone_east))
          (example_attributes ''pods'' '''' (PodObject (example_pod fmempty))))
     = PodObject (example_pod zone_east)"
proof -
  let ?c = "example_cache True fmempty (Inr zone_east)"
  let ?a = "example_attributes ''pods'' '''' (PodObject (example_pod fmempty))"
  have h1: "GroupResource (GetResource ?a) = kapi_Resource ''pods''"
    by (simp add: example_defs model_defs)
  have h2: "GetSubresource ?a = ''''" by (simp add: example_defs)
  have h3: "GetObject ?a = PodObject (example_pod fmempty)" by (simp add: example_defs)
  have h4: "Running ?c" by (simp add: example_defs)
  have h5: "cache_GetNamespace ?c (GetNamespace ?a) = Inr (example_namespace fmempty)"
    by (simp add: example_defs)
  have h6: "KubeProjectNodeSelector |\<notin>|
              fmdom (Annotations (ObjectMeta (example_namespace fmempty)))"
    by (simp add: example_defs)
  have h7: "GetNodeSelectorMap ?c (example_namespace fmempty) = Inr zone_east"
    by (simp add: example_defs)
  have h8: "\<not> Conflicts zone_east (NodeSelector (Spec (example_pod fmempty)))"
    by (simp add: example_defs model_defs)
  show ?thesis
    using Admit_replaces_selector_by_Merge [OF h1 h2 h3 h4 h5 h6 h7 h8]
    by (simp add: example_defs model_defs)
qed

text \<open>
  Claim C2, as stated, with the reason "pod node selector does not extend project node
  selector": Scenario D (project selector \<open>{zone: east}\<close>, pod selector \<open>{disk: ssd}\<close>,
  validating phase) meets the claim's conditions, the merged map has two keys and the pod's
  selector one, and \<^verbatim>\<open>Validate\<close> denies; the cause it wraps is another message.
\<close>

theorem Validate_reason_counterexample:
  "\<not> Conflicts zone_east disk_ssd \<and>
   len (Merge zone_east disk_ssd) \<noteq> len disk_ssd \<and>
   err (Validate (example_cache True fmempty (Inr zone_east))
          (example_attributes ''pods'' '''' (PodObject (example_pod disk_ssd))))
     = Some (NewForbidden (kapi_Resource ''pods'') ''web'' (Errorf
         ''pod node label selector does not extend project node label selector'')) \<and>
   err (Validate (example_cache True fmempty (Inr zone_east))
          (example_attributes ''pods'' '''' (PodObject (example_pod disk_ssd))))
     \<noteq> Some (NewForbidden (kapi_Resource ''pods'') ''web'' (Errorf
         ''pod node selector does not extend project node selector''))"
  by (simp add: Validate_def admit_def example_defs model_defs)

text \<open>
  Claim C2, amended. In the validating phase, for a request for the resource \<^verbatim>\<open>pods\<close> with
  no sub-resource and a pod as payload, a running cache that finds the namespace, no
  opt-out annotation, a project node selector \<open>P\<close> and no conflict between \<open>P\<close> and the pod's
  node selector \<open>R\<close>: if the size of \<open>Merge P R\<close> differs from the size of \<open>R\<close>, \<^verbatim>\<open>Validate\<close>
  denies with a Forbidden error whose cause is "pod node label selector does not extend
  project node label selector"; otherwise it allows, and the pod it leaves behind is the pod
  of the request (the map assigned to its node selector equals \<open>R\<close>).
\<close>

theorem Validate_checks_extension:
  assumes "GroupResource (GetResource a) = kapi_Resource ''pods''"
    and "GetSubresource a = ''''"
    and "GetObject a = PodObject pod"
    and "Running cache"
    and "cache_GetNamespace cache (GetNamespace a) = Inr namespace"
    and "KubeProjectNodeSelector |\<notin>| fmdom (Annotations (ObjectMeta namespace))"
    and "GetNodeSelectorMap cache namespace = Inr P"
    and "\<not> Conflicts P (NodeSelector (Spec pod))"
  shows "(len (Merge P (NodeSelector (Spec pod))) \<noteq> len (NodeSelector (Spec pod)) \<longrightarrow>
            err (Validate cache a) =
              Some (NewForbidden (kapi_Resource ''pods'') (Name (ObjectMeta pod)) (Errorf
                ''pod node label selector does not extend project node label selector'')) \<and>
            obj (Validate cache a) = PodObject pod) \<and>
         (len (Merge P (NodeSelector (Spec pod))) = len (NodeSelector (Spec pod)) \<longrightarrow>
            err (Validate cache a) = None \<and>
            Merge P (NodeSelector (Spec pod)) = NodeSelector (Spec pod) \<and>
            obj (Validate cache a) = PodObject pod)"
proof (intro conjI impI)
  assume ne: "len (Merge P (NodeSelector (Spec pod))) \<noteq> len (NodeSelector (Spec pod))"
  with assms show "err (Validate cache a) =
      Some (NewForbidden (kapi_Resource ''pods'') (Name (ObjectMeta pod)) (Errorf
        ''pod node label selector does not extend project node label selector''))"
    by (simp add: Validate_def admit_def)
  from ne assms show "obj (Validate cache a) = PodObject pod"
    by (simp add: Validate_def admit_def)
next
  assume eq: "len (Merge P (NodeSelector (Spec pod))) = len (NodeSelector (Spec pod))"
  with assms show "err (Validate cache a) = None"
    by (simp add: Validate_def admit_def)
  from eq assms(8) show same: "Merge P (NodeSelector (Spec pod)) = NodeSelector (Spec pod)"
    by (simp add: len_Merge_eq_iff contained_iff Merge_contained)
  with eq assms show "obj (Validate cache a) = PodObject pod"
    by (simp add: Validate_def admit_def)
qed

text \<open>
  Scenario D (denied: \<open>{disk: ssd}\<close> does not extend \<open>{zone: east}\<close>) and Scenario C
  (allowed: \<open>{zone: east, disk: ssd}\<close> extends it, and the pod is as it was).
\<close>

theorem Validate_checks_extension_witness:
  "err (Validate (example_cache True fmempty (Inr zone_east))
          (example_attributes ''pods'' '''' (PodObject (example_pod disk_ssd))))
     = Some (NewForbidden (kapi_Resource ''pods'') ''web'' (Errorf
         ''pod node label selector does not extend project node label selector'')) \<and>
   err (Validate (example_cache True fmempty (Inr zone_east))
          (example_attributes ''pods'' '''' (PodObject (example_pod (fmupd ''disk'' ''ssd'' zone_east)))))
     = None \<and>
   obj (Validate (example_cache True fmempty (Inr zone_east))
          (example_attributes ''pods'' '''' (PodObject (example_pod (fmupd ''disk'' ''ssd'' zone_east)))))
     = PodObject (example_pod (fmupd ''disk'' ''ssd'' zone_east))"
proof -
  let ?c = "example_cache True fmempty (Inr zone_east)"
  let ?d = "example_attributes ''pods'' '''' (PodObject (example_pod disk_ssd))"
  let ?R = "fmupd ''disk'' ''ssd'' zone_east"
  let ?a = "example_attributes ''pods'' '''' (PodObject (example_pod ?R))"
  have c4: "Running ?c" by (simp add: example_defs)
  have c6: "KubeProjectNodeSelector |\<notin>|
              fmdom (Annotations (ObjectMeta (example_namespace fmempty)))"
    by (simp add: example_defs)
  have c7: "GetNodeSelectorMap ?c (example_namespace fmempty) = Inr zone_east"
    by (simp add: example_defs)
  have d1: "GroupResource (GetResource ?d) = kapi_Resource ''pods''"
    by (simp add: example_defs model_defs)
  have d2: "GetSubresource ?d = ''''" by (simp add: example_defs)
  have d3: "GetObject ?d = PodObject (example_pod disk_ssd)" by (simp add: example_defs)
  have d5: "cache_GetNamespace ?c (GetNamespace ?d) = Inr (example_namespace fmempty)"
    by (simp add: example_defs)
  have d8: "\<not> Conflicts zone_east (NodeSelector (Spec (example_pod disk_ssd)))"
    by (simp add: example_defs model_defs)
  have d9: "len (Merge zone_east (NodeSelector (Spec (example_pod disk_ssd))))
              \<noteq> len (NodeSelector (Spec (example_pod disk_ssd)))"
    by (simp add: example_defs model_defs)
  have a1: "GroupResource (GetResource ?a) = kapi_Resource ''pods''"
    by (simp add: example_defs model_defs)
  have a2: "GetSubresource ?a = ''''" by (simp add: example_defs)
  have a3: "GetObject ?a = PodObject (example_pod ?R)" by (simp add: example_defs)
  have a5: "cache_GetNamespace ?c (GetNamespace ?a) = Inr (example_namespace fmempty)"
    by (simp add: example_defs)
  have a8: "\<not> Conflicts zone_east (NodeSelector (Spec (example_pod ?R)))"
    by (simp add: example_defs model_defs)
  have a9: "len (Merge zone_east (NodeSelector (Spec (example_pod ?R))))
              = len (NodeSelector (Spec (example_pod ?R)))"
    by (simp add: example_defs model_defs)
  show ?thesis
    using Validate_checks_extension [OF d1 d2 d3 c4 d5 c6 c7 d8] d9
      Validate_checks_extension [OF a1 a2 a3 c4 a5 c6 c7 a8] a9
    by (simp add: example_defs)
qed

text \<open>
  Claim C3, as stated, with the reason "pod node selector conflicts with project node
  selector.": Scenario B (project selector \<open>{zone: east}\<close>, pod selector \<open>{zone: west}\<close>)
  meets the claim's conditions and is denied in both phases; the cause the Forbidden error
  wraps is another message.
\<close>

theorem admit_conflict_reason_counterexample:
  "Conflicts zone_east zone_west \<and>
   err (admit (example_cache True fmempty (Inr zone_east))
          (example_attributes ''pods'' '''' (PodObject (example_pod zone_west))) True)
     = Some (NewForbidden (kapi_Resource ''pods'') ''web'' (Errorf
         ''pod node label selector conflicts with its project node label selector'')) \<and>
   err (admit (example_cache True fmempty (Inr zone_east))
          (example_attributes ''pods'' '''' (PodObject (example_pod zone_west))) True)
     \<noteq> Some (NewForbidden (kapi_Resource ''pods'') ''web'' (Errorf
         ''pod node selector conflicts with project node selector.''))"
  by (simp add: admit_def example_defs model_defs)

text \<open>
  Claim C3, amended. In either phase, for a request for the resource \<^verbatim>\<open>pods\<close> with no
  sub-resource and a pod as payload, a running cache that finds the namespace, no opt-out
  annotation and a project node selector \<open>P\<close>: if \<open>Conflicts P R\<close> holds for the pod's node
  selector \<open>R\<close>, \<^verbatim>\<open>admit\<close> denies with a Forbidden error, for the resource \<^verbatim>\<open>pods\<close> and the
  pod's name, whose cause is "pod node label selector conflicts with its project node label
  selector"; the pod is left as it was.
\<close>

theorem admit_denies_conflict:
  assumes "GroupResource (GetResource a) = kapi_Resource ''pods''"
    and "GetSubresource a = ''''"
    and "GetObject a = PodObject pod"
    and "Running cache"
    and "cache_GetNamespace cache (GetNamespace a) = Inr namespace"
    and "KubeProjectNodeSelector |\<notin>| fmdom (Annotations (ObjectMeta namespace))"
    and "GetNodeSelectorMap cache namespace = Inr P"
    and "Conflicts P (NodeSelector (Spec pod))"
  shows "err (admit cache a mutationAllowed) =
           Some (NewForbidden (kapi_Resource ''pods'') (Name (ObjectMeta pod)) (Errorf
             ''pod node label selector conflicts with its project node label selector'')) \<and>
         obj (admit cache a mutationAllowed) = PodObject pod"
  using assms by (simp add: admit_def)

text \<open>Scenario B in the mutating and in the validating phase.\<close>

theorem admit_denies_conflict_witness:
  "err (Admit (example_cache True fmempty (Inr zone_east))
          (example_attributes ''pods'' '''' (PodObject (example_pod zone_west))))
     = Some (NewForbidden (kapi_Resource ''pods'') ''web'' (Errorf
         ''pod node label selector conflicts with its project node label selector'')) \<and>
   err (Validate (example_cache True fmempty (Inr zone_east))
          (example_attributes ''pods'' '''' (PodObject (example_pod zone_west))))
     = Some (NewForbidden (kapi_Resource ''pods'') ''web'' (Errorf
         ''pod node label selector conflicts with its project node label selector''))"
proof -
  let ?c = "example_cache True fmempty (Inr zone_east)"
  let ?a = "example_attributes ''pods'' '''' (PodObject (example_pod zone_west))"
  have h1: "GroupResource (GetResource ?a) = kapi_Resource ''pods''"
    by (simp add: example_defs model_defs)
  have h2: "GetSubresource ?a = ''''" by (simp add: example_defs)
  have h3: "GetObject ?a = PodObject (example_pod zone_west)" by (simp add: example_defs)
  have h4: "Running ?c" by (simp add: example_defs)
  have h5: "cache_GetNamespace ?c (GetNamespace ?a) = Inr (example_namespace fmempty)"
    by (simp add: example_defs)
  have h6: "KubeProjectNodeSelector |\<notin>|
              fmdom (Annotations (ObjectMeta (example_namespace fmempty)))"
    by (simp add: example_defs)
  have h7: "GetNodeSelectorMap ?c (example_namespace fmempty) = Inr zone_east"
    by (simp add: example_defs)
  have h8: "Conflicts zone_east (NodeSelector (Spec (example_pod zone_west)))"
    by (simp add: example_defs model_defs)
  show ?thesis
    using admit_denies_conflict [OF h1 h2 h3 h4 h5 h6 h7 h8, of True]
      admit_denies_conflict [OF h1 h2 h3 h4 h5 h6 h7 h8, of False]
    by (simp add: Admit_def Validate_def example_defs)
qed

text \<open>
  Claim C4. For maps \<open>P\<close> and \<open>R\<close> without a conflict, \<open>Merge P R\<close> has the size of \<open>R\<close> if
  and only if every key-value pair of \<open>P\<close> is in \<open>R\<close>. And since \<^verbatim>\<open>admit\<close> checks for a
  conflict before it compares the sizes, the validating phase, once it has the project
  node selector \<open>P\<close>, allows the pod if and only if every key-value pair of \<open>P\<close> is in the
  pod's node selector.
\<close>

theorem size_check_is_containment:
  "(\<not> Conflicts P R \<longrightarrow>
      (len (Merge P R) = len R \<longleftrightarrow>
       (\<forall>k v. fmlookup P k = Some v \<longrightarrow> fmlookup R k = Some v))) \<and>
   (GroupResource (GetResource a) = kapi_Resource ''pods'' \<and> GetSubresource a = '''' \<and>
    GetObject a = PodObject pod \<and> Running cache \<and>
    cache_GetNamespace cache (GetNamespace a) = Inr namespace \<and>
    KubeProjectNodeSelector |\<notin>| fmdom (Annotations (ObjectMeta namespace)) \<and>
    GetNodeSelectorMap cache namespace = Inr P \<longrightarrow>
      (err (Validate cache a) = None \<longleftrightarrow>
       (\<forall>k v. fmlookup P k = Some v \<longrightarrow> fmlookup (NodeSelector (Spec pod)) k = Some v)))"
proof (intro conjI impI)
  assume "\<not> Conflicts P R"
  then show "len (Merge P R) = len R \<longleftrightarrow>
             (\<forall>k v. fmlookup P k = Some v \<longrightarrow> fmlookup R k = Some v)"
    by (simp add: len_Merge_eq_iff contained_iff)
next
  let ?R = "NodeSelector (Spec pod)"
  assume h: "GroupResource (GetResource a) = kapi_Resource ''pods'' \<and> GetSubresource a = '''' \<and>
    GetObject a = PodObject pod \<and> Running cache \<and>
    cache_GetNamespace cache (GetNamespace a) = Inr namespace \<and>
    KubeProjectNodeSelector |\<notin>| fmdom (Annotations (ObjectMeta namespace)) \<and>
    GetNodeSelectorMap cache namespace = Inr P"
  show "err (Validate cache a) = None \<longleftrightarrow>
        (\<forall>k v. fmlookup P k = Some v \<longrightarrow> fmlookup ?R k = Some v)"
  proof (cases "Conflicts P ?R")
    case True
    then have nsub: "\<not> (\<forall>k v. fmlookup P k = Some v \<longrightarrow> fmlookup ?R k = Some v)"
      unfolding Conflicts_iff by force
    from h True have "err (Validate cache a) \<noteq> None"
      by (simp add: Validate_def admit_def)
    with nsub show ?thesis by blast
  next
    case False
    with h have "err (Validate cache a) = None \<longleftrightarrow> len (Merge P ?R) = len ?R"
      by (simp add: Validate_def admit_def)
    with False show ?thesis
      by (simp add: len_Merge_eq_iff contained_iff)
  qed
qed

text \<open>
  \<open>{zone: east}\<close> against \<open>{zone: east, disk: ssd}\<close>: no conflict, equal sizes, containment,
  and \<^verbatim>\<open>Validate\<close> allows (Scenario C).
\<close>

theorem size_check_is_containment_witness:
  "\<not> Conflicts zone_east (fmupd ''disk'' ''ssd'' zone_east) \<and>
   len (Merge zone_east (fmupd ''disk'' ''ssd'' zone_east)) = len (fmupd ''disk'' ''ssd'' zone_east) \<and>
   fmlookup (fmupd ''disk'' ''ssd'' zone_east) ''zone'' = fmlookup zone_east ''zone'' \<and>
   err (Validate (example_cache True fmempty (Inr zone_east))
          (example_attributes ''pods'' '''' (PodObject (example_pod (fmupd ''disk'' ''ssd'' zone_east)))))
     = None"
proof -
  let ?R = "fmupd ''disk'' ''ssd'' zone_east"
  let ?c = "example_cache True fmempty (Inr zone_east)"
  let ?a = "example_attributes ''pods'' '''' (PodObject (example_pod ?R))"
  note inst = size_check_is_containment
    [of zone_east ?R ?a "example_pod ?R" ?c "example_namespace fmempty"]
  have nc: "\<not> Conflicts zone_east ?R"
    by (simp add: example_defs model_defs)
  have eq: "len (Merge zone_east ?R) = len ?R"
    by (simp add: example_defs model_defs)
  have h: "GroupResource (GetResource ?a) = kapi_Resource ''pods'' \<and> GetSubresource ?a = '''' \<and>
    GetObject ?a = PodObject (example_pod ?R) \<and> Running ?c \<and>
    cache_GetNamespace ?c (GetNamespace ?a) = Inr (example_namespace fmempty) \<and>
    KubeProjectNodeSelector |\<notin>| fmdom (Annotations (ObjectMeta (example_namespace fmempty))) \<and>
    GetNodeSelectorMap ?c (example_namespace fmempty) = Inr zone_east"
    by (simp add: example_defs model_defs)
  have sel: "NodeSelector (Spec (example_pod ?R)) = ?R" by (simp add: example_defs)
  from inst nc eq
  have sub: "\<forall>k v. fmlookup zone_east k = Some v \<longrightarrow> fmlookup ?R k = Some v"
    by blast
  from inst h sub sel have allowed: "err (Validate ?c ?a) = None"
    by simp
  have "fmlookup ?R ''zone'' = fmlookup zone_east ''zone''"
    by (simp add: example_defs)
  with nc eq allowed show ?thesis by simp
qed

text \<open>
  Claim C5. If the namespace record that the cache returns for the request's namespace
  carries the annotation \<^verbatim>\<open>scheduler.alpha.kubernetes.io/node-selector\<close>, with any value,
  then \<^verbatim>\<open>admit\<close> returns no error in both phases and leaves the request's object as it was,
  whatever the configured default selector is, and \<^verbatim>\<open>GetNodeSelectorMap\<close> is not called.
\<close>

theorem admit_opt_out_allows:
  assumes "cache_GetNamespace cache (GetNamespace a) = Inr namespace"
    and "fmlookup (Annotations (ObjectMeta namespace)) KubeProjectNodeSelector = Some v"
  shows "err (admit cache a mutationAllowed) = None \<and>
         obj (admit cache a mutationAllowed) = GetObject a \<and>
         (\<forall>ns. CallGetNodeSelectorMap ns \<notin> set (calls (admit cache a mutationAllowed)))"
proof -
  from assms(2) have member:
    "KubeProjectNodeSelector |\<in>| fmdom (Annotations (ObjectMeta namespace))"
    by (rule fmdomI)
  then have "0 < len (Annotations (ObjectMeta namespace))"
    by (rule len_pos_of_member)
  with member assms(1) show ?thesis
    by (simp add: admit_def Let_def split: object.splits)
qed

text \<open>
  Scenario E: the namespace has the opt-out annotation, the configured default is
  \<open>{zone: east}\<close> and the pod asks for \<open>{zone: west}\<close>; both phases allow, the pod is as it
  was, and the cache was asked for its readiness and for the namespace only.
\<close>

theorem admit_opt_out_allows_witness:
  "admit (example_cache True (fmupd KubeProjectNodeSelector ''region=west'' fmempty) (Inr zone_east))
     (example_attributes ''pods'' '''' (PodObject (example_pod zone_west))) True
     = \<lparr>err = None, obj = PodObject (example_pod zone_west),
        calls = [CallRunning, CallGetNamespace ''dev'']\<rparr> \<and>
   admit (example_cache True (fmupd KubeProjectNodeSelector ''region=west'' fmempty) (Inr zone_east))
     (example_attributes ''pods'' '''' (PodObject (example_pod zone_west))) False
     = \<lparr>err = None, obj = PodObject (example_pod zone_west),
        calls = [CallRunning, CallGetNamespace ''dev'']\<rparr>"
proof -
  let ?ann = "fmupd KubeProjectNodeSelector ''region=west'' fmempty"
  let ?c = "example_cache True ?ann (Inr zone_east)"
  let ?a = "example_attributes ''pods'' '''' (PodObject (example_pod zone_west))"
  have h1: "cache_GetNamespace ?c (GetNamespace ?a) = Inr (example_namespace ?ann)"
    by (simp add: example_defs)
  have h2: "fmlookup (Annotations (ObjectMeta (example_namespace ?ann))) KubeProjectNodeSelector
              = Some ''region=west''"
    by (simp add: example_defs)
  have calls: "calls (admit ?c ?a m) = [CallRunning, CallGetNamespace ''dev'']" for m
    by (simp add: admit_def example_defs model_defs)
  have payload: "GetObject ?a = PodObject (example_pod zone_west)"
    by (simp add: example_defs)
  have "admit ?c ?a m = \<lparr>err = None, obj = PodObject (example_pod zone_west),
          calls = [CallRunning, CallGetNamespace ''dev'']\<rparr>" for m
    using admit_opt_out_allows [OF h1 h2, of m] calls [of m] payload
    by (cases "admit ?c ?a m") simp
  then show ?thesis by simp
qed

text \<open>
  Claim C6. With a running cache and a pod request: when the lookup of the namespace fails
  with an error \<open>e\<close>, \<^verbatim>\<open>admit\<close> returns the Forbidden error built from the resource \<^verbatim>\<open>pods\<close>,
  the pod's name and \<open>e\<close>; when the namespace is found, has no opt-out annotation, and the
  derivation of its node selector fails with an error \<open>e\<close>, \<^verbatim>\<open>admit\<close> returns \<open>e\<close> itself,
  which is not \<open>e\<close> wrapped as Forbidden. The pod is unchanged in both cases.
\<close>

theorem admit_lookup_failures:
  assumes "GroupResource (GetResource a) = kapi_Resource ''pods''"
    and "GetSubresource a = ''''"
    and "GetObject a = PodObject pod"
    and "Running cache"
  shows "(\<forall>e. cache_GetNamespace cache (GetNamespace a) = Inl e \<longrightarrow>
            err (admit cache a mutationAllowed) =
              Some (NewForbidden (kapi_Resource ''pods'') (Name (ObjectMeta pod)) e) \<and>
            obj (admit cache a mutationAllowed) = PodObject pod) \<and>
         (\<forall>namespace e.
            cache_GetNamespace cache (GetNamespace a) = Inr namespace \<and>
            KubeProjectNodeSelector |\<notin>| fmdom (Annotations (ObjectMeta namespace)) \<and>
            GetNodeSelectorMap cache namespace = Inl e \<longrightarrow>
            err (admit cache a mutationAllowed) = Some e \<and>
            err (admit cache a mutationAllowed) \<noteq>
              Some (NewForbidden (kapi_Resource ''pods'') (Name (ObjectMeta pod)) e) \<and>
            obj (admit cache a mutationAllowed) = PodObject pod)"
  using assms by (simp add: admit_def NewForbidden_neq [symmetric])

text \<open>
  A request for a namespace the cache does not know, and a request whose namespace is
  known but whose selector cannot be derived.
\<close>

theorem admit_lookup_failures_witness:
  "err (admit (example_cache True fmempty (Inr zone_east))
          ((example_attributes ''pods'' '''' (PodObject (example_pod fmempty)))
             \<lparr>GetNamespace := ''qa''\<rparr>) True)
     = Some (NewForbidden (kapi_Resource ''pods'') ''web'' (Errorf ''namespace does not exist'')) \<and>
   err (admit (example_cache True fmempty (Inl (Errorf ''invalid selector'')))
          (example_attributes ''pods'' '''' (PodObject (example_pod fmempty))) True)
     = Some (Errorf ''invalid selector'')"
proof -
  let ?c = "example_cache True fmempty (Inr zone_east)"
  let ?a = "(example_attributes ''pods'' '''' (PodObject (example_pod fmempty)))
              \<lparr>GetNamespace := ''qa''\<rparr>"
  let ?d = "example_cache True fmempty (Inl (Errorf ''invalid selector''))"
  let ?b = "example_attributes ''pods'' '''' (PodObject (example_pod fmempty))"
  have a1: "GroupResource (GetResource ?a) = kapi_Resource ''pods''"
    by (simp add: example_defs model_defs)
  have a2: "GetSubresource ?a = ''''" by (simp add: example_defs)
  have a3: "GetObject ?a = PodObject (example_pod fmempty)" by (simp add: example_defs)
  have a4: "Running ?c" by (simp add: example_defs)
  have a5: "cache_GetNamespace ?c (GetNamespace ?a) = Inl (Errorf ''namespace does not exist'')"
    by (simp add: example_defs)
  have b1: "GroupResource (GetResource ?b) = kapi_Resource ''pods''"
    by (simp add: example_defs model_defs)
  have b2: "GetSubresource ?b = ''''" by (simp add: example_defs)
  have b3: "GetObject ?b = PodObject (example_pod fmempty)" by (simp add: example_defs)
  have b4: "Running ?d" by (simp add: example_defs)
  have b5: "cache_GetNamespace ?d (GetNamespace ?b) = Inr (example_namespace fmempty) \<and>
            KubeProjectNodeSelector |\<notin>|
              fmdom (Annotations (ObjectMeta (example_namespace fmempty))) \<and>
            GetNodeSelectorMap ?d (example_namespace fmempty) = Inl (Errorf ''invalid selector'')"
    by (simp add: example_defs)
  have name: "Name (ObjectMeta (example_pod fmempty)) = ''web''"
    by (simp add: example_defs)
  from admit_lookup_failures [OF a1 a2 a3 a4, of True] a5 name
  have first: "err (admit ?c ?a True) =
      Some (NewForbidden (kapi_Resource ''pods'') ''web'' (Errorf ''namespace does not exist''))"
    by simp
  from admit_lookup_failures [OF b1 b2 b3 b4, of True] b5
  have "err (admit ?d ?b True) = Some (Errorf ''invalid selector'')"
    by blast
  with first show ?thesis by simp
qed

text \<open>
  Claim C7. If the cache is not running, \<^verbatim>\<open>admit\<close> returns no error in both phases and
  leaves the request's object as it was, whatever the pod's node selector and the
  namespace's default are; the only call it can have made to the cache is \<^verbatim>\<open>Running\<close>: no
  namespace lookup, no selector lookup, and so no conflict check and no mutation.
\<close>

theorem admit_fails_open_when_not_running:
  assumes "\<not> Running cache"
  shows "err (admit cache a mutationAllowed) = None \<and>
         obj (admit cache a mutationAllowed) = GetObject a \<and>
         set (calls (admit cache a mutationAllowed)) \<subseteq> {CallRunning}"
  using assms by (simp add: admit_def Let_def split: object.splits)

text \<open>
  Scenario F: the cache is not running, the default is \<open>{zone: east}\<close> and the pod asks for
  \<open>{zone: west}\<close>; both phases allow and the pod is as it was.
\<close>

theorem admit_fails_open_when_not_running_witness:
  "Conflicts zone_east zone_west \<and>
   admit (example_cache False fmempty (Inr zone_east))
     (example_attributes ''pods'' '''' (PodObject (example_pod zone_west))) True
     = \<lparr>err = None, obj = PodObject (example_pod zone_west), calls = [CallRunning]\<rparr> \<and>
   admit (example_cache False fmempty (Inr zone_east))
     (example_attributes ''pods'' '''' (PodObject (example_pod zone_west))) False
     = \<lparr>err = None, obj = PodObject (example_pod zone_west), calls = [CallRunning]\<rparr>"
proof -
  let ?c = "example_cache False fmempty (Inr zone_east)"
  let ?a = "example_attributes ''pods'' '''' (PodObject (example_pod zone_west))"
  have h: "\<not> Running ?c" by (simp add: example_defs)
  have conflict: "Conflicts zone_east zone_west"
    by (simp add: example_defs model_defs)
  have calls: "calls (admit ?c ?a m) = [CallRunning]" for m
    by (simp add: admit_def example_defs model_defs)
  have payload: "GetObject ?a = PodObject (example_pod zone_west)"
    by (simp add: example_defs)
  have "admit ?c ?a m =
          \<lparr>err = None, obj = PodObject (example_pod zone_west), calls = [CallRunning]\<rparr>" for m
    using admit_fails_open_when_not_running [OF h, of ?a m] calls [of m] payload
    by (cases "admit ?c ?a m") simp
  with conflict show ?thesis by simp
qed

text \<open>
  Claim C8. If the request's resource is not \<^verbatim>\<open>pods\<close> of the core group (in particular if
  its resource name is not \<^verbatim>\<open>pods\<close>), or its sub-resource is not empty, \<^verbatim>\<open>admit\<close> returns at
  once in both phases: no error, the request's object as it was, no call to the cache.
\<close>

theorem admit_skips_other_resources:
  assumes "Resource (GroupResource (GetResource a)) \<noteq> ''pods'' \<or>
           GroupResource (GetResource a) \<noteq> kapi_Resource ''pods'' \<or>
           GetSubresource a \<noteq> ''''"
  shows "admit cache a mutationAllowed = \<lparr>err = None, obj = GetObject a, calls = []\<rparr>"
proof -
  have "Resource (GroupResource (GetResource a)) \<noteq> ''pods'' \<Longrightarrow>
        GroupResource (GetResource a) \<noteq> kapi_Resource ''pods''"
    by (auto simp: kapi_Resource_def)
  with assms have "GroupResource (GetResource a) \<noteq> kapi_Resource ''pods'' \<or>
                   GetSubresource a \<noteq> ''''"
    by blast
  then show ?thesis
    by (auto simp: admit_def Let_def)
qed

text \<open>
  A request for \<^verbatim>\<open>services\<close> and a request for the sub-resource \<^verbatim>\<open>pods/status\<close>, each with a
  pod whose selector conflicts with the default of a running cache.
\<close>

theorem admit_skips_other_resources_witness:
  "admit (example_cache True fmempty (Inr zone_east))
     (example_attributes ''services'' '''' (PodObject (example_pod zone_west))) True
     = \<lparr>err = None, obj = PodObject (example_pod zone_west), calls = []\<rparr> \<and>
   admit (example_cache True fmempty (Inr zone_east))
     (example_attributes ''pods'' ''status'' (PodObject (example_pod zone_west))) False
     = \<lparr>err = None, obj = PodObject (example_pod zone_west), calls = []\<rparr>"
proof -
  let ?c = "example_cache True fmempty (Inr zone_east)"
  let ?a = "example_attributes ''services'' '''' (PodObject (example_pod zone_west))"
  let ?b = "example_attributes ''pods'' ''status'' (PodObject (example_pod zone_west))"
  have ha: "Resource (GroupResource (GetResource ?a)) \<noteq> ''pods'' \<or>
            GroupResource (GetResource ?a) \<noteq> kapi_Resource ''pods'' \<or>
            GetSubresource ?a \<noteq> ''''"
    by (simp add: example_defs model_defs)
  have hb: "Resource (GroupResource (GetResource ?b)) \<noteq> ''pods'' \<or>
            GroupResource (GetResource ?b) \<noteq> kapi_Resource ''pods'' \<or>
            GetSubresource ?b \<noteq> ''''"
    by (simp add: example_defs model_defs)
  show ?thesis
    using admit_skips_other_resources [OF ha, of ?c True]
      admit_skips_other_resources [OF hb, of ?c False]
    by (simp add: example_defs)
qed

text \<open>
  Claim C9. For every request and both phases: when \<^verbatim>\<open>admit\<close> returns an error the
  request's object is as it was; and whatever it returns, the object is either as it was,
  or the request held a pod, the cache returned the namespace and its node selector \<open>P\<close>,
  \<^verbatim>\<open>admit\<close> returned no error, and the object is that pod with the field
  \<open>Spec.NodeSelector\<close> set to \<open>Merge P R\<close> for its former value \<open>R\<close>, every other field of the
  pod being as before.
\<close>

theorem admit_replaces_wholesale_or_not_at_all:
  "(err (admit cache a mutationAllowed) \<noteq> None \<longrightarrow>
      obj (admit cache a mutationAllowed) = GetObject a) \<and>
   (obj (admit cache a mutationAllowed) = GetObject a \<or>
    (\<exists>pod namespace P.
       GetObject a = PodObject pod \<and>
       cache_GetNamespace cache (GetNamespace a) = Inr namespace \<and>
       GetNodeSelectorMap cache namespace = Inr P \<and>
       err (admit cache a mutationAllowed) = None \<and>
       obj (admit cache a mutationAllowed) =
         PodObject (pod\<lparr>Spec := (Spec pod)\<lparr>NodeSelector :=
           Merge P (NodeSelector (Spec pod))\<rparr>\<rparr>)))"
proof (cases "GetObject a")
  case (OtherObject kind)
  then show ?thesis
    by (simp add: admit_def Let_def)
next
  case payload: (PodObject pod)
  show ?thesis
  proof (cases "cache_GetNamespace cache (GetNamespace a)")
    case (Inl e)
    with payload show ?thesis
      by (simp add: admit_def Let_def)
  next
    case found: (Inr namespace)
    show ?thesis
    proof (cases "GetNodeSelectorMap cache namespace")
      case (Inl e)
      with payload found show ?thesis
        by (simp add: admit_def Let_def)
    next
      case (Inr P)
      with payload found show ?thesis
        by (simp add: admit_def Let_def)
    qed
  qed
qed

text \<open>
  Scenario B is denied and the pod keeps its selector \<open>{zone: west}\<close>; a pod with the
  selector \<open>{disk: ssd}\<close> is allowed in the mutating phase and differs from the pod of the
  request in its node selector only, which is the whole merged map.
\<close>

theorem admit_replaces_wholesale_or_not_at_all_witness:
  "err (admit (example_cache True fmempty (Inr zone_east))
          (example_attributes ''pods'' '''' (PodObject (example_pod zone_west))) True) \<noteq> None \<and>
   obj (admit (example_cache True fmempty (Inr zone_east))
          (example_attributes ''pods'' '''' (PodObject (example_pod zone_west))) True)
     = PodObject (example_pod zone_west) \<and>
   obj (admit (example_cache True fmempty (Inr zone_east))
          (example_attributes ''pods'' '''' (PodObject (example_pod disk_ssd))) True)
     = PodObject ((example_pod disk_ssd)\<lparr>Spec := (Spec (example_pod disk_ssd))
         \<lparr>NodeSelector := Merge zone_east disk_ssd\<rparr>\<rparr>)"
proof -
  let ?c = "example_cache True fmempty (Inr zone_east)"
  let ?a = "example_attributes ''pods'' '''' (PodObject (example_pod zone_west))"
  let ?b = "example_attributes ''pods'' '''' (PodObject (example_pod disk_ssd))"
  have denied: "err (admit ?c ?a True) \<noteq> None"
    by (simp add: admit_def example_defs model_defs)
  have pa: "GetObject ?a = PodObject (example_pod zone_west)"
    by (simp add: example_defs)
  from admit_replaces_wholesale_or_not_at_all [of ?c ?a True] denied pa
  have first: "obj (admit ?c ?a True) = PodObject (example_pod zone_west)"
    by simp
  have nc: "\<not> Conflicts zone_east disk_ssd"
    by (simp add: example_defs model_defs)
  have changed: "obj (admit ?c ?b True) \<noteq> GetObject ?b"
  proof
    assume "obj (admit ?c ?b True) = GetObject ?b"
    with nc have "Merge zone_east disk_ssd = disk_ssd"
      by (simp add: admit_def Let_def example_pod_def example_attributes_def example_cache_def
            example_namespace_def GroupResource_def kapi_Resource_def kapi_GroupName_def
            KubeProjectNodeSelector_def split: if_splits)
    then have "fmlookup (Merge zone_east disk_ssd) ''zone'' = fmlookup disk_ssd ''zone''"
      by simp
    then show False
      by (simp add: Merge_def zone_east_def disk_ssd_def)
  qed
  have pb: "GetObject ?b = PodObject (example_pod disk_ssd)"
    by (simp add: example_defs)
  have ns: "cache_GetNamespace ?c (GetNamespace ?b) = Inr (example_namespace fmempty)"
    by (simp add: example_defs)
  have sel: "GetNodeSelectorMap ?c (example_namespace fmempty) = Inr zone_east"
    by (simp add: example_defs)
  from admit_replaces_wholesale_or_not_at_all [of ?c ?b True] changed pb ns sel
  have "obj (admit ?c ?b True) = PodObject ((example_pod disk_ssd)
          \<lparr>Spec := (Spec (example_pod disk_ssd))\<lparr>NodeSelector := Merge zone_east disk_ssd\<rparr>\<rparr>)"
    by (auto simp: example_pod_def)
  with denied first show ?thesis by simp
qed

text \<open>
  Claim C10. If the request is for the resource \<^verbatim>\<open>pods\<close> with no sub-resource but its payload
  is not a pod, \<^verbatim>\<open>admit\<close> returns at once in both phases: no error, the payload as it was,
  no call to the cache.
\<close>

theorem admit_skips_other_payloads:
  assumes "GroupResource (GetResource a) = kapi_Resource ''pods''"
    and "GetSubresource a = ''''"
    and "GetObject a = OtherObject kind"
  shows "admit cache a mutationAllowed = \<lparr>err = None, obj = GetObject a, calls = []\<rparr>"
  using assms by (simp add: admit_def)

text \<open>A request for \<^verbatim>\<open>pods\<close> whose payload is a binding.\<close>

theorem admit_skips_other_payloads_witness:
  "admit (example_cache True fmempty (Inr zone_east))
     (example_attributes ''pods'' '''' (OtherObject ''Binding'')) True
     = \<lparr>err = None, obj = OtherObject ''Binding'', calls = []\<rparr> \<and>
   admit (example_cache True fmempty (Inr zone_east))
     (example_attributes ''pods'' '''' (OtherObject ''Binding'')) False
     = \<lparr>err = None, obj = OtherObject ''Binding'', calls = []\<rparr>"
proof -
  let ?c = "example_cache True fmempty (Inr zone_east)"
  let ?a = "example_attributes ''pods'' '''' (OtherObject ''Binding'')"
  have h1: "GroupResource (GetResource ?a) = kapi_Resource ''pods''"
    by (simp add: example_defs model_defs)
  have h2: "GetSubresource ?a = ''''" by (simp add: example_defs)
  have h3: "GetObject ?a = OtherObject ''Binding''" by (simp add: example_defs)
  show ?thesis
    using admit_skips_other_payloads [OF h1 h2 h3, of ?c True]
      admit_skips_other_payloads [OF h1 h2 h3, of ?c False]
    by (simp add: example_defs)
qed

end
